theory Spec2Isabelle
  imports Main "HOL-Library.Word"
begin

section \<open>JavaScript values\<close>

text \<open>
  The module \<^verbatim>\<open>src/user/interstitials.js\<close> works on dynamically typed values: account
  ids that are numbers or numeric strings, form fields that may be missing, configuration
  settings tested for truthiness. A value is one of the primitive kinds below.

  A string is a sequence of UTF-16 code units, as in the language: its length counts code
  units and \<^verbatim>\<open>===\<close> compares them. \<open>lit\<close> turns a literal of the source, which is ASCII,
  into such a string.

  A number is an integer from \<open>- 2\<^sup>5\<^sup>3\<close> up to \<open>2\<^sup>5\<^sup>3 - 1\<close>, read from the word with
  \<open>sint\<close>: the range in which every integer is a double of its own and \<^verbatim>\<open>String\<close> prints
  plain decimal digits. Account ids and flags are of this kind. The module does no
  arithmetic on numbers; it tests them for truthiness, compares them with \<^verbatim>\<open>===\<close> and
  prints them. Fractions, \<open>NaN\<close> and the infinities occur in it only as results of
  \<^verbatim>\<open>parseInt\<close>, which has a type of its own below.
\<close>

type_synonym code_unit = "16 word"

type_synonym jsstring = "code_unit list"

definition lit :: "string \<Rightarrow> jsstring" where
  "lit s = map of_char s"

datatype jsval = JUndefined | JNull | JBool bool | JNum "54 word" | JStr jsstring

text \<open>
  An object is a finite mapping from property names to values. The property names the
  module reads and writes are literals of the source.
\<close>

type_synonym obj = "string \<rightharpoonup> jsval"

text \<open>Property read \<^verbatim>\<open>o.k\<close>: a missing property reads as \<^verbatim>\<open>undefined\<close>.\<close>

definition get_field :: "obj \<Rightarrow> string \<Rightarrow> jsval" where
  "get_field ob k = (case ob k of None \<Rightarrow> JUndefined | Some v \<Rightarrow> v)"

text \<open>Truthiness, as \<^verbatim>\<open>if (v)\<close>, \<^verbatim>\<open>!v\<close> and \<^verbatim>\<open>v && w\<close> test it.\<close>

fun truthy :: "jsval \<Rightarrow> bool" where
  "truthy JUndefined = False"
| "truthy JNull = False"
| "truthy (JBool b) = b"
| "truthy (JNum n) = (n \<noteq> 0)"
| "truthy (JStr s) = (s \<noteq> [])"

text \<open>\<^verbatim>\<open>a || b\<close> on values.\<close>

definition js_or :: "jsval \<Rightarrow> jsval \<Rightarrow> jsval" where
  "js_or a b = (if truthy a then a else b)"

text \<open>
  Strict equality \<^verbatim>\<open>a === b\<close> on these values is equality of kind and content, that is
  HOL's \<open>=\<close> on \<^typ>\<open>jsval\<close>.
\<close>

subsection \<open>Strings\<close>

text \<open>
  White space, as \<^verbatim>\<open>trim\<close> and \<^verbatim>\<open>parseInt\<close> skip it: the code units of the language's
  \<open>WhiteSpace\<close> and \<open>LineTerminator\<close>. These are tab, line feed, vertical tab, form feed,
  carriage return, space, no-break space (\<open>U+00A0\<close>), the other space separators of Unicode
  (\<open>U+1680\<close>, \<open>U+2000\<close> to \<open>U+200A\<close>, \<open>U+202F\<close>, \<open>U+205F\<close>, \<open>U+3000\<close>), the line and
  paragraph separators (\<open>U+2028\<close>, \<open>U+2029\<close>) and the byte order mark (\<open>U+FEFF\<close>).
\<close>

definition is_ws :: "code_unit \<Rightarrow> bool" where
  "is_ws c =
     (c \<in> set [0x0009, 0x000A, 0x000B, 0x000C, 0x000D, 0x0020, 0x00A0, 0x1680,
               0x2000, 0x2001, 0x2002, 0x2003, 0x2004, 0x2005, 0x2006, 0x2007,
               0x2008, 0x2009, 0x200A, 0x2028, 0x2029, 0x202F, 0x205F, 0x3000, 0xFEFF])"

text \<open>\<^verbatim>\<open>s.trim()\<close>\<close>

definition trim :: "jsstring \<Rightarrow> jsstring" where
  "trim s = rev (dropWhile is_ws (rev (dropWhile is_ws s)))"

text \<open>The digit \<open>d\<close> as a code unit: \<open>0x30\<close> is the digit zero.\<close>

definition digit_char :: "nat \<Rightarrow> code_unit" where
  "digit_char d = 0x30 + of_nat d"

fun nat_digits :: "nat \<Rightarrow> jsstring" where
  "nat_digits n = (if n < 10 then [digit_char n] else nat_digits (n div 10) @ [digit_char (n mod 10)])"

declare nat_digits.simps [simp del]

text \<open>\<^verbatim>\<open>String(v)\<close>, also what a template literal does to an interpolated value.\<close>

fun js_String :: "jsval \<Rightarrow> jsstring" where
  "js_String JUndefined = lit ''undefined''"
| "js_String JNull = lit ''null''"
| "js_String (JBool b) = (if b then lit ''true'' else lit ''false'')"
| "js_String (JNum n) =
     (if sint n < 0 then lit ''-'' @ nat_digits (nat (- sint n)) else nat_digits (nat (sint n)))"
| "js_String (JStr s) = s"

text \<open>
  Truthiness of \<^verbatim>\<open>v.length\<close> for a value that is not null or undefined: a string has its
  number of code units as length, another primitive has none.
\<close>

fun has_length :: "jsval \<Rightarrow> bool" where
  "has_length (JStr s) = (length s \<noteq> 0)"
| "has_length v = False"

subsection \<open>\<^verbatim>\<open>parseInt\<close>\<close>

text \<open>
  What \<^verbatim>\<open>parseInt\<close> returns is a double: \<open>NaN\<close>, an integer that a double holds, or an
  infinity.
\<close>

datatype parsed = NaN | Fin int | PosInf | NegInf

text \<open>Strict equality of two such results: \<open>NaN\<close> equals nothing, itself included.\<close>

definition num_strict_eq :: "parsed \<Rightarrow> parsed \<Rightarrow> bool" where
  "num_strict_eq a b = (a \<noteq> NaN \<and> a = b)"

text \<open>Truthiness of such a result: neither \<open>NaN\<close> nor zero.\<close>

fun num_truthy :: "parsed \<Rightarrow> bool" where
  "num_truthy NaN = False"
| "num_truthy (Fin n) = (n \<noteq> 0)"
| "num_truthy PosInf = True"
| "num_truthy NegInf = True"

text \<open>The number of binary digits of a natural number.\<close>

fun bit_length :: "nat \<Rightarrow> nat" where
  "bit_length n = (if n = 0 then 0 else Suc (bit_length (n div 2)))"

declare bit_length.simps [simp del]

text \<open>
  The double nearest to a natural number, ties to the even significand: the number keeps
  its 53 leading binary digits. \<open>None\<close> when the rounded value reaches \<open>2\<^sup>1\<^sup>0\<^sup>2\<^sup>4\<close>, which
  is past the largest double.
\<close>

definition round_double :: "nat \<Rightarrow> nat option" where
  "round_double m =
     (let k = bit_length m - 53;
          q = m div 2 ^ k;
          r = m mod 2 ^ k;
          q' = (if 2 ^ k < 2 * r \<or> (2 * r = 2 ^ k \<and> odd q) then q + 1 else q);
          v = q' * 2 ^ k
      in if 2 ^ 1024 \<le> v then None else Some v)"

definition is_digit :: "code_unit \<Rightarrow> bool" where
  "is_digit c = (0x30 \<le> c \<and> c \<le> 0x39)"

definition digit_val :: "code_unit \<Rightarrow> nat" where
  "digit_val c = unat c - 0x30"

definition digits_val :: "jsstring \<Rightarrow> nat" where
  "digits_val ds = foldl (\<lambda>acc c. 10 * acc + digit_val c) 0 ds"

text \<open>
  \<^verbatim>\<open>parseInt(v, 10)\<close>: the argument as a string, leading white space skipped, an optional
  sign, then the longest run of decimal digits; \<open>NaN\<close> when that run is empty, else the
  double nearest to the integer the digits denote, as the engine of Node.js computes it
  (past twenty digits the language leaves the last digits to the implementation).
\<close>

definition parseInt10 :: "jsval \<Rightarrow> parsed" where
  "parseInt10 v =
     (let s = dropWhile is_ws (js_String v);
          neg = (s \<noteq> [] \<and> hd s = 0x2D);
          r = (if s \<noteq> [] \<and> (hd s = 0x2D \<or> hd s = 0x2B) then tl s else s);
          ds = takeWhile is_digit r
      in if ds = [] then NaN
         else case round_double (digits_val ds) of
                None \<Rightarrow> (if neg then NegInf else PosInf)
              | Some m \<Rightarrow> Fin (if neg then - int m else int m))"

section \<open>Data model\<close>

text \<open>
  The request \<^verbatim>\<open>data.req\<close>: the acting user's id, the origin address, and the session
  object, which the email callback writes to.
\<close>

record request =
  req_uid :: jsval
  req_ip :: jsval
  req_session :: obj

text \<open>
  The payload of the bus filter \<^verbatim>\<open>filter:user.saveEmail\<close>. The filter returns the payload,
  possibly with \<open>allowed\<close> and \<open>error\<close> changed by a plugin.
\<close>

record saveEmail_payload =
  p_uid :: jsval
  p_email :: jsval
  p_registration :: bool
  p_allowed :: bool
  p_error :: jsstring

text \<open>
  Every awaited call to a collaborator is recorded, in program order, with its arguments.
  The calls inside one \<^verbatim>\<open>Promise.all\<close> are listed in the order of the array.
\<close>

datatype event =
    Call_admin_can string jsval
  | Call_hasPassword jsval
  | Call_isValidationPending jsval
  | Call_getUserField jsval string
  | Call_isPasswordCorrect jsval jsval jsval
  | Call_canEdit jsval jsval
  | Call_getUserFields jsval "string list"
  | Fire_saveEmail saveEmail_payload
  | Sleep nat
  | Call_canSendValidation jsval jsstring
  | Call_email_available jsval
  | Email_remove jsval jsval
  | SetUserField jsval string jsval
  | ConfirmByUid jsval
  | SendValidationEmail jsval jsval bool
  | Winston_error
  | Db_getObjectField jsstring string
  | Fire_parse_post jsval

text \<open>The calls that change the account store or send mail.\<close>

fun is_mutation :: "event \<Rightarrow> bool" where
  "is_mutation (Email_remove u s) = True"
| "is_mutation (SetUserField u f v) = True"
| "is_mutation (ConfirmByUid u) = True"
| "is_mutation (SendValidationEmail u e f) = True"
| "is_mutation e = False"

text \<open>The four lookups the email callback joins with \<^verbatim>\<open>Promise.all\<close> (lines 63 to 74).\<close>

fun is_joined_lookup :: "event \<Rightarrow> bool" where
  "is_joined_lookup (Call_isPasswordCorrect u p i) = True"
| "is_joined_lookup (Call_canEdit a u) = True"
| "is_joined_lookup (Call_getUserFields u fs) = True"
| "is_joined_lookup (Fire_saveEmail p) = True"
| "is_joined_lookup e = False"

fun is_delay :: "event \<Rightarrow> bool" where
  "is_delay (Sleep ms) = True"
| "is_delay e = False"

datatype js_error = Error jsstring

text \<open>
  How a callback ends: an \<^verbatim>\<open>async\<close> callback fulfils or throws (its promise rejects); a
  callback in continuation style calls \<^verbatim>\<open>next\<close> with \<^verbatim>\<open>null\<close> or with an error.
\<close>

datatype outcome = Fulfilled | Threw js_error | Next "js_error option"

text \<open>
  What a callback can read and change: the draft account \<^verbatim>\<open>userData\<close> and the submission
  \<^verbatim>\<open>formData\<close> (both mutated in place), the request, and the calls made so far. A callback
  returns its outcome together with this state, also when it throws.
\<close>

record world =
  draft :: obj
  form :: obj
  request :: request
  trace :: "event list"

text \<open>
  A callback is a closure. The email callback closes over \<^verbatim>\<open>canManageUsers\<close> and
  \<^verbatim>\<open>hasPassword\<close>, computed when the step ran, and over \<^verbatim>\<open>data\<close>, whose request it reads
  from the \<^typ>\<open>world\<close>. \<open>PluginCallback\<close> stands for an entry another plugin contributed.
\<close>

datatype callback = EmailCallback bool bool | GdprCallback | TouCallback | PluginCallback nat

record interstitial =
  template :: string
  idata :: obj
  callback :: callback

text \<open>The argument of a step: \<^verbatim>\<open>{ req, userData, interstitials }\<close>; the draft may be absent.\<close>

record step_data =
  req :: request
  userData :: "obj option"
  interstitials :: "interstitial list"

text \<open>
  The collaborators (\<^verbatim>\<open>privileges\<close>, \<^verbatim>\<open>user\<close>, \<^verbatim>\<open>db\<close>, \<^verbatim>\<open>plugins\<close>, \<^verbatim>\<open>utils\<close>,
  \<^verbatim>\<open>meta.config\<close>) are not part of the module. Each is a function of its arguments that
  returns what the call resolves to; \<open>user_email_sendValidationEmail\<close> tells whether the send
  succeeds, since the callback catches and logs its failure. The other calls are taken to
  resolve. The privilege and password checks resolve to booleans;
  \<open>user_getUserFields\<close> resolves to the current email, a string (empty when there is none),
  and the value of \<^verbatim>\<open>email:confirmed\<close>, tested for truthiness; a setting of
  \<^verbatim>\<open>meta.config\<close> is any value, tested for truthiness.
\<close>

record env =
  privileges_admin_can :: "string \<Rightarrow> jsval \<Rightarrow> bool"
  privileges_users_canEdit :: "jsval \<Rightarrow> jsval \<Rightarrow> bool"
  user_hasPassword :: "jsval \<Rightarrow> bool"
  user_isPasswordCorrect :: "jsval \<Rightarrow> jsval \<Rightarrow> jsval \<Rightarrow> bool"
  user_getUserField :: "jsval \<Rightarrow> string \<Rightarrow> jsval"
  user_getUserFields :: "jsval \<Rightarrow> jsstring \<times> jsval"
  user_email_isValidationPending :: "jsval \<Rightarrow> bool"
  user_email_canSendValidation :: "jsval \<Rightarrow> jsstring \<Rightarrow> bool"
  user_email_available :: "jsval \<Rightarrow> bool"
  user_email_sendValidationEmail :: "jsval \<Rightarrow> jsval \<Rightarrow> bool"
  utils_isEmailValid :: "jsval \<Rightarrow> bool"
  plugins_fire_saveEmail :: "saveEmail_payload \<Rightarrow> saveEmail_payload"
  plugins_fire_parse_post :: "jsval \<Rightarrow> jsval"
  db_getObjectField :: "jsstring \<Rightarrow> string \<Rightarrow> jsval"
  meta_config :: obj
  plugin_callbacks :: "nat \<Rightarrow> world \<Rightarrow> outcome \<times> world"

definition emit :: "event list \<Rightarrow> world \<Rightarrow> world" where
  "emit es w = w\<lparr>trace := trace w @ es\<rparr>"

text \<open>Sequencing: what follows a statement runs only if the statement did not throw.\<close>

definition and_then :: "outcome \<times> world \<Rightarrow> (world \<Rightarrow> outcome \<times> world) \<Rightarrow> outcome \<times> world" where
  "and_then r k = (case r of (Fulfilled, w) \<Rightarrow> k w | _ \<Rightarrow> r)"

section \<open>The email step\<close>

text \<open>Lines 56 to 58: a truthy submitted email is replaced by its trimmed string.\<close>

definition trim_email :: "world \<Rightarrow> world" where
  "trim_email w =
     (if truthy (get_field (form w) ''email'')
      then w\<lparr>form := (form w)(''email'' \<mapsto> JStr (trim (js_String (get_field (form w) ''email''))))\<rparr>
      else w)"

text \<open>The test \<^verbatim>\<open>formData.email && formData.email.length\<close> of lines 80 and 137.\<close>

definition email_submitted :: "jsval \<Rightarrow> bool" where
  "email_submitted v = (truthy v \<and> has_length v)"

definition saveEmail_query :: "jsval \<Rightarrow> jsval \<Rightarrow> bool \<Rightarrow> saveEmail_payload" where
  "saveEmail_query u e r =
     \<lparr>p_uid = u, p_email = e, p_registration = r, p_allowed = True,
      p_error = lit ''[[error:invalid-email]]''\<rparr>"

text \<open>The array handed to \<^verbatim>\<open>Promise.all\<close> on lines 63 to 74.\<close>

definition joined_lookups :: "world \<Rightarrow> event list" where
  "joined_lookups w =
     (let uid = get_field (draft w) ''uid''
      in [Call_isPasswordCorrect uid (get_field (form w) ''password'') (req_ip (request w)),
          Call_canEdit (req_uid (request w)) uid,
          Call_getUserFields uid [''email'', ''email:confirmed''],
          Fire_saveEmail (saveEmail_query uid (get_field (form w) ''email'') False)])"

text \<open>Lines 81 to 83.\<close>

definition check_email_allowed :: "env \<Rightarrow> jsval \<Rightarrow> saveEmail_payload \<Rightarrow> world \<Rightarrow> outcome \<times> world" where
  "check_email_allowed env email res w =
     (if \<not> p_allowed res \<or> \<not> utils_isEmailValid env email
      then (Threw (Error (p_error res)), w)
      else (Fulfilled, w))"

text \<open>Lines 86 to 92.\<close>

definition check_email_change ::
  "env \<Rightarrow> jsval \<Rightarrow> jsval \<Rightarrow> jsstring \<Rightarrow> jsval \<Rightarrow> world \<Rightarrow> outcome \<times> world" where
  "check_email_change env uid email current confirmed w =
     (if email = JStr current then
        if truthy confirmed then (Threw (Error (lit ''[[error:email-nochange]]'')), w)
        else if \<not> user_email_canSendValidation env uid current
        then (Threw (Error (lit ''[[error:confirm-email-already-sent, ''
                              @ js_String (get_field (meta_config env) ''emailConfirmInterval'')
                              @ lit '']]'')),
              emit [Call_canSendValidation uid current] w)
        else (Fulfilled, emit [Call_canSendValidation uid current] w)
      else (Fulfilled, w))"

text \<open>Lines 95 to 117.\<close>

definition apply_email_change ::
  "env \<Rightarrow> bool \<Rightarrow> bool \<Rightarrow> bool \<Rightarrow> bool \<Rightarrow> jsval \<Rightarrow> jsval \<Rightarrow> world \<Rightarrow> outcome \<times> world" where
  "apply_email_change env canManageUsers hasPassword isPasswordCorrect canEdit uid email w =
     (if canManageUsers \<and> uid \<noteq> req_uid (request w) then
        if \<not> user_email_available env email
        then (Threw (Error (lit ''[[error:email-taken]]'')), emit [Call_email_available email] w)
        else (Fulfilled,
              emit [Call_email_available email, Email_remove uid JUndefined,
                    SetUserField uid ''email'' email, ConfirmByUid uid] w)
      else if canEdit then
        if hasPassword \<and> \<not> isPasswordCorrect
        then (Threw (Error (lit ''[[error:invalid-password]]'')), w)
        else (Fulfilled,
              (emit (SendValidationEmail uid email True
                     # (if user_email_sendValidationEmail env uid email then [] else [Winston_error])) w)
              \<lparr>request := (request w)\<lparr>req_session := (req_session (request w))(''emailChanged'' \<mapsto> JNum 1)\<rparr>\<rparr>)
      else (Threw (Error (lit ''[[error:no-privileges]]'')), w))"

text \<open>Lines 119 to 126.\<close>

definition clear_email ::
  "env \<Rightarrow> bool \<Rightarrow> bool \<Rightarrow> bool \<Rightarrow> bool \<Rightarrow> jsval \<Rightarrow> jsstring \<Rightarrow> world \<Rightarrow> outcome \<times> world" where
  "clear_email env canManageUsers hasPassword isPasswordCorrect isSelf uid current w =
     (if truthy (get_field (meta_config env) ''requireEmailAddress'')
      then (Threw (Error (lit ''[[error:invalid-email]]'')), w)
      else if current \<noteq> [] \<and> (\<not> hasPassword \<or> (hasPassword \<and> isPasswordCorrect) \<or> canManageUsers)
      then (Fulfilled,
            emit [Email_remove uid (if isSelf then get_field (req_session (request w)) ''id'' else JNull)] w)
      else (Fulfilled, w))"

text \<open>Lines 61 to 127, the draft of an existing account.\<close>

definition email_callback_existing :: "env \<Rightarrow> bool \<Rightarrow> bool \<Rightarrow> world \<Rightarrow> outcome \<times> world" where
  "email_callback_existing env canManageUsers hasPassword w =
     (let uid = get_field (draft w) ''uid'';
          email = get_field (form w) ''email'';
          isSelf = num_strict_eq (parseInt10 uid) (parseInt10 (req_uid (request w)));
          isPasswordCorrect = user_isPasswordCorrect env uid (get_field (form w) ''password'') (req_ip (request w));
          canEdit = privileges_users_canEdit env (req_uid (request w)) uid;
          current = fst (user_getUserFields env uid);
          confirmed = snd (user_getUserFields env uid);
          res = plugins_fire_saveEmail env (saveEmail_query uid email False);
          w1 = emit (joined_lookups w) w;
          w2 = (if \<not> canManageUsers \<and> \<not> isPasswordCorrect then emit [Sleep 2000] w1 else w1)
      in if email_submitted email then
           and_then (check_email_allowed env email res w2) (\<lambda>w3.
           and_then (check_email_change env uid email current confirmed w3) (\<lambda>w4.
           apply_email_change env canManageUsers hasPassword isPasswordCorrect canEdit uid email w4))
         else clear_email env canManageUsers hasPassword isPasswordCorrect isSelf uid current w2)"

text \<open>Lines 129 to 142, the draft of a new account.\<close>

definition email_callback_new :: "env \<Rightarrow> world \<Rightarrow> outcome \<times> world" where
  "email_callback_new env w =
     (let email = get_field (form w) ''email'';
          res = plugins_fire_saveEmail env (saveEmail_query JNull email True);
          w1 = emit [Fire_saveEmail (saveEmail_query JNull email True)] w
      in if \<not> p_allowed res
            \<or> (truthy (get_field (meta_config env) ''requireEmailAddress'') \<and> \<not> email_submitted email)
         then (Threw (Error (p_error res)), w1)
         else (Fulfilled, w1\<lparr>draft := (draft w1)(''email'' \<mapsto> email)\<rparr>))"

text \<open>The callback of lines 55 to 146.\<close>

definition email_callback :: "env \<Rightarrow> bool \<Rightarrow> bool \<Rightarrow> world \<Rightarrow> outcome \<times> world" where
  "email_callback env canManageUsers hasPassword w0 =
     (let w = trim_email w0
      in and_then
           (if truthy (get_field (draft w) ''uid'')
            then email_callback_existing env canManageUsers hasPassword w
            else email_callback_new env w)
           (\<lambda>w'. (Fulfilled, w'\<lparr>draft := (draft w')(''updateEmail'' := None)\<rparr>)))"

text \<open>The render value \<^verbatim>\<open>issuePasswordChallenge\<close> of lines 47 to 52.\<close>

definition issuePasswordChallenge :: "bool \<Rightarrow> bool \<Rightarrow> jsval \<Rightarrow> jsval \<Rightarrow> bool" where
  "issuePasswordChallenge hasPassword canManageUsers uid requid =
     (hasPassword \<and> ((canManageUsers \<and> uid = requid) \<or> (\<not> canManageUsers \<and> truthy uid)))"

text \<open>
  \<^verbatim>\<open>Interstitials.email\<close>, lines 23 to 150. A step returns its argument, possibly with one
  more entry, and the calls it made; or it throws.
\<close>

definition Interstitials_email :: "env \<Rightarrow> step_data \<Rightarrow> js_error + step_data \<times> event list" where
  "Interstitials_email env d =
     (case userData d of
        None \<Rightarrow> Inl (Error (lit ''[[error:invalid-data]]''))
      | Some ud \<Rightarrow>
          if \<not> truthy (get_field ud ''updateEmail'') then Inr (d, [])
          else
            let uid = get_field ud ''uid'';
                canManageUsers = privileges_admin_can env ''admin:users'' (req_uid (req d));
                hasPassword = user_hasPassword env uid;
                hasPending = user_email_isValidationPending env uid;
                email = (if truthy uid then user_getUserField env uid ''email'' else JUndefined)
            in Inr (d\<lparr>interstitials := interstitials d @
                      [\<lparr>template = ''partials/email_update'',
                        idata = [''email'' \<mapsto> email,
                                 ''requireEmailAddress'' \<mapsto> get_field (meta_config env) ''requireEmailAddress'',
                                 ''issuePasswordChallenge'' \<mapsto>
                                    JBool (issuePasswordChallenge hasPassword canManageUsers uid (req_uid (req d))),
                                 ''hasPending'' \<mapsto> JBool hasPending],
                        callback = EmailCallback canManageUsers hasPassword\<rparr>]\<rparr>,
                    [Call_admin_can ''admin:users'' (req_uid (req d)), Call_hasPassword uid,
                     Call_isValidationPending uid]
                    @ (if truthy uid then [Call_getUserField uid ''email''] else [])))"

section \<open>The consent step\<close>

text \<open>The callback of lines 173 to 179.\<close>

definition gdpr_callback :: "world \<Rightarrow> outcome \<times> world" where
  "gdpr_callback w =
     (let w1 = (if get_field (form w) ''gdpr_agree_data'' = JStr (lit ''on'')
                   \<and> get_field (form w) ''gdpr_agree_email'' = JStr (lit ''on'')
                then w\<lparr>draft := (draft w)(''gdpr_consent'' \<mapsto> JBool True)\<rparr> else w)
      in (Next (if truthy (get_field (draft w1) ''gdpr_consent'') then None
                else Some (Error (lit ''[[register:gdpr_consent_denied]]''))), w1))"

text \<open>\<^verbatim>\<open>Interstitials.gdpr\<close>, lines 152 to 182.\<close>

definition Interstitials_gdpr :: "env \<Rightarrow> step_data \<Rightarrow> js_error + step_data \<times> event list" where
  "Interstitials_gdpr env d =
     (if \<not> truthy (get_field (meta_config env) ''gdpr_enabled'')
         \<or> (case userData d of None \<Rightarrow> False | Some ud \<Rightarrow> truthy (get_field ud ''gdpr_consent''))
      then Inr (d, [])
      else case userData d of
        None \<Rightarrow> Inl (Error (lit ''[[error:invalid-data]]''))
      | Some ud \<Rightarrow>
          let uid = get_field ud ''uid'';
              kee = lit ''user:'' @ js_String uid;
              consented = db_getObjectField env kee ''gdpr_consent'';
              evs = (if truthy uid then [Db_getObjectField kee ''gdpr_consent''] else [])
          in if truthy uid \<and> num_truthy (parseInt10 consented) then Inr (d, evs)
             else Inr (d\<lparr>interstitials := interstitials d @
                        [\<lparr>template = ''partials/gdpr_consent'',
                          idata = [''digestFrequency'' \<mapsto> get_field (meta_config env) ''dailyDigestFreq'',
                                   ''digestEnabled'' \<mapsto>
                                      JBool (get_field (meta_config env) ''dailyDigestFreq'' \<noteq> JStr (lit ''off''))],
                          callback = GdprCallback\<rparr>]\<rparr>, evs))"

section \<open>The terms-of-use step\<close>

text \<open>The callback of lines 211 to 217.\<close>

definition tou_callback :: "world \<Rightarrow> outcome \<times> world" where
  "tou_callback w =
     (let w1 = (if get_field (form w) ''agree-terms'' = JStr (lit ''on'')
                then w\<lparr>draft := (draft w)(''acceptTos'' \<mapsto> JBool True)\<rparr> else w)
      in (Next (if truthy (get_field (draft w1) ''acceptTos'') then None
                else Some (Error (lit ''[[register:terms_of_use_error]]''))), w1))"

text \<open>\<^verbatim>\<open>Interstitials.tou\<close>, lines 184 to 220.\<close>

definition Interstitials_tou :: "env \<Rightarrow> step_data \<Rightarrow> js_error + step_data \<times> event list" where
  "Interstitials_tou env d =
     (case userData d of
        None \<Rightarrow> Inl (Error (lit ''[[error:invalid-data]]''))
      | Some ud \<Rightarrow>
          if \<not> truthy (get_field (meta_config env) ''termsOfUse'') \<or> truthy (get_field ud ''acceptTos'')
          then Inr (d, [])
          else
            let uid = get_field ud ''uid'';
                kee = lit ''user:'' @ js_String uid;
                accepted = db_getObjectField env kee ''acceptTos'';
                evs = (if truthy uid then [Db_getObjectField kee ''acceptTos''] else [])
            in if truthy uid \<and> num_truthy (parseInt10 accepted) then Inr (d, evs)
               else
                 let content = js_or (get_field (meta_config env) ''termsOfUse'') (JStr [])
                 in Inr (d\<lparr>interstitials := interstitials d @
                           [\<lparr>template = ''partials/acceptTos'',
                             idata = [''termsOfUse'' \<mapsto> plugins_fire_parse_post env content],
                             callback = TouCallback\<rparr>]\<rparr>,
                         evs @ [Fire_parse_post content]))"

section \<open>Running a collected callback\<close>

text \<open>
  The runner calls the callback of an entry with the draft and the submitted form. The draft
  it hands over is the object the steps were applied to.
\<close>

definition run_callback :: "env \<Rightarrow> callback \<Rightarrow> world \<Rightarrow> outcome \<times> world" where
  "run_callback env cb w =
     (case cb of
        EmailCallback canManageUsers hasPassword \<Rightarrow> email_callback env canManageUsers hasPassword w
      | GdprCallback \<Rightarrow> gdpr_callback w
      | TouCallback \<Rightarrow> tou_callback w
      | PluginCallback n \<Rightarrow> plugin_callbacks env n w)"

section \<open>Reading a step's result\<close>

text \<open>The entries a step added to the list it was given: none when it threw.\<close>

definition contributed :: "step_data \<Rightarrow> js_error + step_data \<times> event list \<Rightarrow> interstitial list" where
  "contributed d r =
     (case r of
        Inl e \<Rightarrow> []
      | Inr (d', evs) \<Rightarrow> drop (length (interstitials d)) (interstitials d'))"

text \<open>The render value \<open>k\<close> of an entry.\<close>

definition render_value :: "string \<Rightarrow> interstitial \<Rightarrow> jsval" where
  "render_value k i = get_field (idata i) k"

text \<open>
  The password-challenge flag in the words of the specification: the account has a password
  and the actor, administrator or not, is editing their own account.
\<close>

definition spec_issuePasswordChallenge :: "bool \<Rightarrow> bool \<Rightarrow> bool \<Rightarrow> bool" where
  "spec_issuePasswordChallenge hasPassword admin own =
     (hasPassword \<and> ((admin \<and> own) \<or> (\<not> admin \<and> own)))"

section \<open>Order of calls\<close>

text \<open>
  A call made while the callback branches on the submitted email: neither the delay nor one
  of the joined lookups.
\<close>

definition branch_event :: "event \<Rightarrow> bool" where
  "branch_event e = (\<not> is_delay e \<and> \<not> is_joined_lookup e)"

text \<open>The result \<open>r\<close> has the calls \<open>t\<close> followed by calls of the branching only.\<close>

definition extends_by_branch :: "event list \<Rightarrow> outcome \<times> world \<Rightarrow> bool" where
  "extends_by_branch t r = (\<exists>es. trace (snd r) = t @ es \<and> list_all branch_event es)"

section \<open>A sample deployment\<close>

text \<open>
  The concrete inputs of the witnesses below. In \<open>env0\<close> account 1 administers accounts,
  account 2 is a moderator with edit rights on every account, every account has the
  password \<open>secret\<close> and the confirmed email \<open>old@example.com\<close>, and no plugin vetoes.
\<close>

definition env0 :: env where
  "env0 =
     \<lparr>privileges_admin_can = (\<lambda>p u. u = JNum 1),
      privileges_users_canEdit = (\<lambda>a u. a = u \<or> a = JNum 1 \<or> a = JNum 2),
      user_hasPassword = (\<lambda>u. True),
      user_isPasswordCorrect = (\<lambda>u p i. p = JStr (lit ''secret'')),
      user_getUserField = (\<lambda>u f. JStr (lit ''old@example.com'')),
      user_getUserFields = (\<lambda>u. (lit ''old@example.com'', JNum 1)),
      user_email_isValidationPending = (\<lambda>u. False),
      user_email_canSendValidation = (\<lambda>u c. True),
      user_email_available = (\<lambda>e. e \<noteq> JStr (lit ''taken@example.com'')),
      user_email_sendValidationEmail = (\<lambda>u e. True),
      utils_isEmailValid = (\<lambda>e. case e of JStr s \<Rightarrow> 0x40 \<in> set s | _ \<Rightarrow> False),
      plugins_fire_saveEmail = (\<lambda>p. p),
      plugins_fire_parse_post = (\<lambda>c. JStr (lit ''<p>'' @ js_String c @ lit ''</p>'')),
      db_getObjectField = (\<lambda>k f. JNull),
      meta_config = [''requireEmailAddress'' \<mapsto> JNum 1, ''gdpr_enabled'' \<mapsto> JNum 1,
                     ''termsOfUse'' \<mapsto> JStr (lit ''Be kind.''), ''dailyDigestFreq'' \<mapsto> JStr (lit ''week''),
                     ''emailConfirmInterval'' \<mapsto> JNum 10],
      plugin_callbacks = (\<lambda>n w. (Fulfilled, w))\<rparr>"

text \<open>The same deployment with a plugin that vetoes every email change.\<close>

definition env_veto :: env where
  "env_veto = env0\<lparr>plugins_fire_saveEmail := (\<lambda>p. p\<lparr>p_allowed := False\<rparr>)\<rparr>"

text \<open>The same deployment with consent collection and terms of use switched off.\<close>

definition env_plain :: env where
  "env_plain = env0\<lparr>meta_config := [''requireEmailAddress'' \<mapsto> JNum 1]\<rparr>"

definition request_of :: "54 word \<Rightarrow> request" where
  "request_of a = \<lparr>req_uid = JNum a, req_ip = JStr (lit ''::1''), req_session = [''id'' \<mapsto> JStr (lit ''s1'')]\<rparr>"

text \<open>Actor \<open>a\<close> submits email \<open>e\<close> and password \<open>p\<close> for the draft of account 7.\<close>

definition submit7 :: "54 word \<Rightarrow> jsstring \<Rightarrow> jsstring \<Rightarrow> world" where
  "submit7 a e p =
     \<lparr>draft = [''uid'' \<mapsto> JNum 7, ''updateEmail'' \<mapsto> JBool True],
      form = [''email'' \<mapsto> JStr e, ''password'' \<mapsto> JStr p],
      request = request_of a, trace = []\<rparr>"

text \<open>The current email of the sample accounts behind a no-break space.\<close>

definition nbsp_old :: jsstring where
  "nbsp_old = 0x00A0 # lit ''old@example.com''"

text \<open>A registration: no account yet, the visitor (id 0) submits an email.\<close>

definition register_a :: world where
  "register_a =
     \<lparr>draft = [''username'' \<mapsto> JStr (lit ''ann''), ''updateEmail'' \<mapsto> JBool True],
      form = [''email'' \<mapsto> JStr (lit ''a@example.com'')],
      request = request_of 0, trace = []\<rparr>"

definition plugin_entry :: interstitial where
  "plugin_entry = \<lparr>template = ''partials/plugin'', idata = Map.empty, callback = PluginCallback 0\<rparr>"

text \<open>Step arguments: actor \<open>a\<close>, and the draft \<open>ud\<close> or no draft at all.\<close>

definition step_arg :: "54 word \<Rightarrow> obj option \<Rightarrow> step_data" where
  "step_arg a ud = \<lparr>req = request_of a, userData = ud, interstitials = [plugin_entry]\<rparr>"

definition draft7 :: obj where
  "draft7 = [''uid'' \<mapsto> JNum 7, ''updateEmail'' \<mapsto> JBool True]"

definition draft7_done :: obj where
  "draft7_done = [''uid'' \<mapsto> JNum 7]"

text \<open>The draft of account 7 once it carries the acceptance flag.\<close>

definition draft7_accepted :: obj where
  "draft7_accepted = [''uid'' \<mapsto> JNum 7, ''acceptTos'' \<mapsto> JBool True]"

text \<open>The entry the terms-of-use step contributes in the sample deployment.\<close>

definition tou_entry0 :: interstitial where
  "tou_entry0 =
     \<lparr>template = ''partials/acceptTos'', idata = [''termsOfUse'' \<mapsto> JStr (lit ''<p>Be kind.</p>'')],
      callback = TouCallback\<rparr>"

text \<open>The forms of the consent and terms-of-use steps.\<close>

definition toggles :: "string \<Rightarrow> string \<Rightarrow> string \<Rightarrow> obj" where
  "toggles a b c =
     [''gdpr_agree_data'' \<mapsto> JStr (lit a), ''gdpr_agree_email'' \<mapsto> JStr (lit b),
      ''agree-terms'' \<mapsto> JStr (lit c)]"

definition answer :: "obj \<Rightarrow> obj \<Rightarrow> world" where
  "answer ud fm = \<lparr>draft = ud, form = fm, request = request_of 7, trace = []\<rparr>"

section \<open>Checks of the primitives\<close>

text \<open>A leading no-break space is trimmed.\<close>

lemma trim_nbsp_old: "trim nbsp_old = lit ''old@example.com''"
  by (simp add: trim_def is_ws_def nbsp_old_def lit_def)

text \<open>An integer below \<open>2\<^sup>5\<^sup>3\<close> is a double of its own; above, digits are lost.\<close>

lemma bit_length_le: "m < 2 ^ k \<Longrightarrow> bit_length m \<le> k"
proof (induction k arbitrary: m)
  case 0
  then show ?case by (simp add: bit_length.simps)
next
  case (Suc k)
  show ?case
  proof (cases "m = 0")
    case True
    then show ?thesis by (simp add: bit_length.simps)
  next
    case False
    have "m div 2 < 2 ^ k" using Suc.prems by simp
    then have "bit_length (m div 2) \<le> k" by (rule Suc.IH)
    then show ?thesis using False by (subst bit_length.simps) simp
  qed
qed

lemma round_double_exact: "m < 2 ^ 53 \<Longrightarrow> round_double m = Some m"
proof -
  assume m: "m < 2 ^ 53"
  then have "bit_length m - 53 = 0" using bit_length_le [of m 53] by simp
  moreover have "m < 2 ^ 1024" using m by (rule less_le_trans) simp
  ultimately show ?thesis by (simp add: round_double_def Let_def)
qed

lemma round_double_tie: "round_double 9007199254740993 = Some 9007199254740992"
  by (simp add: round_double_def bit_length.simps Let_def)

lemma round_double_tie_up: "round_double 9007199254740995 = Some 9007199254740996"
  by (simp add: round_double_def bit_length.simps Let_def)

text \<open>Two ids that differ as digit strings and are the same double: \<^verbatim>\<open>isSelf\<close> holds.\<close>

lemma parseInt10_rounds:
  "num_strict_eq (parseInt10 (JStr (lit ''9007199254740993''))) (parseInt10 (JStr (lit ''9007199254740992'')))"
  by (simp add: num_strict_eq_def parseInt10_def is_ws_def is_digit_def digits_val_def digit_val_def
        lit_def round_double_def bit_length.simps)

text \<open>An id as a number and as a string with white space before it.\<close>

lemma parseInt10_of_id: "parseInt10 (JStr (lit '' 17'')) = Fin 17"
  by (simp add: parseInt10_def is_ws_def is_digit_def digits_val_def digit_val_def lit_def
        round_double_def bit_length.simps)

lemma parseInt10_self:
  "num_strict_eq (parseInt10 (JStr (lit ''7''))) (parseInt10 (JNum 7))"
  by (simp add: num_strict_eq_def parseInt10_def is_ws_def is_digit_def digits_val_def digit_val_def
        lit_def round_double_def bit_length.simps nat_digits.simps digit_char_def)

lemma js_String_of_id: "js_String (JNum 1205) = lit ''1205''"
  by (simp add: nat_digits.simps digit_char_def lit_def)

lemma js_String_negative: "js_String (JNum (- 1205)) = lit ''-1205''"
  by (simp add: nat_digits.simps digit_char_def lit_def)

section \<open>Evaluating the sample deployment\<close>

lemma env0_sel:
  "privileges_admin_can env0 p u = (u = JNum 1)"
  "privileges_users_canEdit env0 a u = (a = u \<or> a = JNum 1 \<or> a = JNum 2)"
  "user_hasPassword env0 u = True"
  "user_isPasswordCorrect env0 u pw ip = (pw = JStr (lit ''secret''))"
  "user_getUserField env0 u f = JStr (lit ''old@example.com'')"
  "user_getUserFields env0 u = (lit ''old@example.com'', JNum 1)"
  "user_email_isValidationPending env0 u = False"
  "user_email_canSendValidation env0 u cur = True"
  "user_email_available env0 v = (v \<noteq> JStr (lit ''taken@example.com''))"
  "user_email_sendValidationEmail env0 u v = True"
  "utils_isEmailValid env0 (JStr s) = (0x40 \<in> set s)"
  "plugins_fire_saveEmail env0 q = q"
  "plugins_fire_parse_post env0 c = JStr (lit ''<p>'' @ js_String c @ lit ''</p>'')"
  "db_getObjectField env0 k f = JNull"
  "meta_config env0 = [''requireEmailAddress'' \<mapsto> JNum 1, ''gdpr_enabled'' \<mapsto> JNum 1,
                       ''termsOfUse'' \<mapsto> JStr (lit ''Be kind.''), ''dailyDigestFreq'' \<mapsto> JStr (lit ''week''),
                       ''emailConfirmInterval'' \<mapsto> JNum 10]"
  by (simp_all add: env0_def)

lemma env_veto_sel:
  "user_isPasswordCorrect env_veto u pw ip = (pw = JStr (lit ''secret''))"
  "privileges_users_canEdit env_veto a u = (a = u \<or> a = JNum 1 \<or> a = JNum 2)"
  "user_getUserFields env_veto u = (lit ''old@example.com'', JNum 1)"
  "utils_isEmailValid env_veto (JStr s) = (0x40 \<in> set s)"
  "plugins_fire_saveEmail env_veto q = q\<lparr>p_allowed := False\<rparr>"
  by (simp_all add: env_veto_def env0_def)

lemma env_plain_sel:
  "meta_config env_plain = [''requireEmailAddress'' \<mapsto> JNum 1]"
  by (simp add: env_plain_def)

lemma step_arg_sel:
  "req_uid (req (step_arg a ud)) = JNum a"
  "userData (step_arg a ud) = ud"
  "interstitials (step_arg a ud) = [plugin_entry]"
  by (simp_all add: step_arg_def request_of_def)

lemma submit7_sel:
  "draft (submit7 a e p) = [''uid'' \<mapsto> JNum 7, ''updateEmail'' \<mapsto> JBool True]"
  "form (submit7 a e p) = [''email'' \<mapsto> JStr e, ''password'' \<mapsto> JStr p]"
  "req_uid (request (submit7 a e p)) = JNum a"
  "req_ip (request (submit7 a e p)) = JStr (lit ''::1'')"
  "req_session (request (submit7 a e p)) = [''id'' \<mapsto> JStr (lit ''s1'')]"
  "trace (submit7 a e p) = []"
  by (simp_all add: submit7_def request_of_def)

lemma answer_sel:
  "draft (answer ud fm) = ud"
  "form (answer ud fm) = fm"
  by (simp_all add: answer_def)

lemmas email_defs = email_callback_def email_callback_existing_def email_callback_new_def
  trim_email_def email_submitted_def check_email_allowed_def check_email_change_def
  apply_email_change_def clear_email_def joined_lookups_def and_then_def emit_def Let_def

section \<open>The email step passes a draft without \<open>updateEmail\<close> through\<close>

text \<open>
  Claim C9. When the draft exists and its \<open>updateEmail\<close> flag is not set (missing or
  falsy), \<^verbatim>\<open>Interstitials.email\<close> returns the argument it was given, with the same draft
  and the same list of entries, and calls no collaborator.
\<close>

theorem email_step_passthrough:
  assumes "userData d = Some ud" and "\<not> truthy (get_field ud ''updateEmail'')"
  shows "Interstitials_email env d = Inr (d, [])"
  using assms by (simp add: Interstitials_email_def)

theorem email_step_passthrough_witness:
  "userData (step_arg 7 (Some draft7_done)) = Some draft7_done
   \<and> \<not> truthy (get_field draft7_done ''updateEmail'')
   \<and> Interstitials_email env0 (step_arg 7 (Some draft7_done)) = Inr (step_arg 7 (Some draft7_done), [])"
proof -
  have h1: "userData (step_arg 7 (Some draft7_done)) = Some draft7_done"
    by (simp add: step_arg_sel)
  have h2: "\<not> truthy (get_field draft7_done ''updateEmail'')"
    by (simp add: draft7_done_def get_field_def)
  from h1 h2 email_step_passthrough [OF h1 h2, of env0] show ?thesis
    by (intro conjI)
qed

section \<open>A missing draft: consent step against terms-of-use step\<close>

text \<open>
  Claim C10. With the setting \<open>gdpr_enabled\<close> falsy, \<^verbatim>\<open>Interstitials.gdpr\<close> returns its
  argument unchanged and without error, whatever the draft, also when there is none. It
  throws only the invalid-data error, and only when consent collection is enabled and the
  draft is missing. \<^verbatim>\<open>Interstitials.tou\<close> throws the invalid-data error for a missing
  draft under every configuration.
\<close>

theorem missing_draft_gdpr_tou:
  "(\<not> truthy (get_field (meta_config env) ''gdpr_enabled'') \<longrightarrow> Interstitials_gdpr env d = Inr (d, []))
   \<and> (Interstitials_gdpr env d = Inl e \<longrightarrow>
        truthy (get_field (meta_config env) ''gdpr_enabled'') \<and> userData d = None
        \<and> e = Error (lit ''[[error:invalid-data]]''))
   \<and> (userData d = None \<longrightarrow> Interstitials_tou env d = Inl (Error (lit ''[[error:invalid-data]]'')))"
proof (intro conjI impI)
  assume "\<not> truthy (get_field (meta_config env) ''gdpr_enabled'')"
  then show "Interstitials_gdpr env d = Inr (d, [])"
    by (simp add: Interstitials_gdpr_def)
next
  assume thrown: "Interstitials_gdpr env d = Inl e"
  then show "truthy (get_field (meta_config env) ''gdpr_enabled'')"
    by (simp add: Interstitials_gdpr_def split: if_splits)
  from thrown show "userData d = None"
    by (cases "userData d") (auto simp add: Interstitials_gdpr_def Let_def split: if_splits)
  from thrown show "e = Error (lit ''[[error:invalid-data]]'')"
    by (cases "userData d") (auto simp add: Interstitials_gdpr_def Let_def split: if_splits)
next
  assume "userData d = None"
  then show "Interstitials_tou env d = Inl (Error (lit ''[[error:invalid-data]]''))"
    by (simp add: Interstitials_tou_def)
qed

theorem missing_draft_gdpr_tou_witness:
  "\<not> truthy (get_field (meta_config env_plain) ''gdpr_enabled'')
   \<and> userData (step_arg 3 None) = None
   \<and> Interstitials_gdpr env_plain (step_arg 3 None) = Inr (step_arg 3 None, [])
   \<and> Interstitials_tou env_plain (step_arg 3 None) = Inl (Error (lit ''[[error:invalid-data]]''))
   \<and> Interstitials_gdpr env0 (step_arg 3 None) = Inl (Error (lit ''[[error:invalid-data]]''))
   \<and> truthy (get_field (meta_config env0) ''gdpr_enabled'')"
proof -
  have h1: "\<not> truthy (get_field (meta_config env_plain) ''gdpr_enabled'')"
    by (simp add: env_plain_sel get_field_def)
  have h2: "userData (step_arg 3 None) = None"
    by (simp add: step_arg_sel)
  have h3: "Interstitials_gdpr env0 (step_arg 3 None) = Inl (Error (lit ''[[error:invalid-data]]''))"
    by (simp add: Interstitials_gdpr_def env0_sel step_arg_sel get_field_def)
  note plain = missing_draft_gdpr_tou [of env_plain "step_arg 3 None" "Error (lit ''[[error:invalid-data]]'')"]
  note full = missing_draft_gdpr_tou [of env0 "step_arg 3 None" "Error (lit ''[[error:invalid-data]]'')"]
  from plain h1 have c1: "Interstitials_gdpr env_plain (step_arg 3 None) = Inr (step_arg 3 None, [])"
    by blast
  from plain h2 have c2: "Interstitials_tou env_plain (step_arg 3 None) = Inl (Error (lit ''[[error:invalid-data]]''))"
    by blast
  from full h3 have c3: "truthy (get_field (meta_config env0) ''gdpr_enabled'')"
    by blast
  from h1 h2 h3 c1 c2 c3 show ?thesis
    by (intro conjI)
qed

section \<open>Registration: the submitted email is staged on the draft\<close>

text \<open>
  Claim C6. For the draft of a new account (no truthy \<open>uid\<close>), the submitted email
  \<open>a@example.com\<close>, a deployment that requires an email address, and a bus filter that
  leaves \<open>allowed\<close> true, the email callback fulfils, the draft gains the field \<open>email\<close>
  with the value \<open>a@example.com\<close>, and the \<open>updateEmail\<close> flag is deleted from the draft.
  The only call made is the bus filter, with \<open>registration\<close> true.
\<close>

theorem new_account_email_staged:
  assumes "\<not> truthy (get_field (draft w) ''uid'')"
      and "get_field (form w) ''email'' = JStr (lit ''a@example.com'')"
      and "truthy (get_field (meta_config env) ''requireEmailAddress'')"
      and "p_allowed (plugins_fire_saveEmail env (saveEmail_query JNull (JStr (lit ''a@example.com'')) True))"
      and "r = email_callback env canManageUsers hasPassword w"
  shows "fst r = Fulfilled
         \<and> draft (snd r) = (draft w)(''email'' \<mapsto> JStr (lit ''a@example.com''), ''updateEmail'' := None)
         \<and> get_field (draft (snd r)) ''email'' = JStr (lit ''a@example.com'')
         \<and> draft (snd r) ''updateEmail'' = None
         \<and> trace (snd r) = trace w @ [Fire_saveEmail (saveEmail_query JNull (JStr (lit ''a@example.com'')) True)]"
  using assms by (simp add: email_defs get_field_def trim_def is_ws_def lit_def)

theorem new_account_email_staged_witness:
  "\<not> truthy (get_field (draft register_a) ''uid'')
   \<and> get_field (form register_a) ''email'' = JStr (lit ''a@example.com'')
   \<and> truthy (get_field (meta_config env0) ''requireEmailAddress'')
   \<and> p_allowed (plugins_fire_saveEmail env0 (saveEmail_query JNull (JStr (lit ''a@example.com'')) True))
   \<and> fst (email_callback env0 False False register_a) = Fulfilled
   \<and> get_field (draft (snd (email_callback env0 False False register_a))) ''email'' = JStr (lit ''a@example.com'')
   \<and> draft (snd (email_callback env0 False False register_a)) ''updateEmail'' = None"
proof -
  have h1: "\<not> truthy (get_field (draft register_a) ''uid'')"
    by (simp add: register_a_def get_field_def)
  have h2: "get_field (form register_a) ''email'' = JStr (lit ''a@example.com'')"
    by (simp add: register_a_def get_field_def)
  have h3: "truthy (get_field (meta_config env0) ''requireEmailAddress'')"
    by (simp add: env0_sel get_field_def)
  have h4: "p_allowed (plugins_fire_saveEmail env0 (saveEmail_query JNull (JStr (lit ''a@example.com'')) True))"
    by (simp add: env0_sel saveEmail_query_def)
  from new_account_email_staged [OF h1 h2 h3 h4 refl, of False False] h1 h2 h3 h4 show ?thesis
    by blast
qed

section \<open>An administrator sets the email of another account\<close>

text \<open>
  Claim C4. The draft is of an existing account (truthy \<open>uid\<close>), the actor can administer
  accounts and the draft's \<open>uid\<close> is not the actor's (\<^verbatim>\<open>userData.uid !== data.req.uid\<close>). The
  submitted email, trimmed, is not empty, passes the bus filter and the format check, differs
  from the current email and is available. Then the callback fulfils; after the four joined
  lookups it asks for availability, removes the old email binding, sets the field \<open>email\<close>
  to the new address and confirms it, in this order; and it deletes \<open>updateEmail\<close> from the
  draft. Nothing is assumed about the password: the theorem holds whatever
  \<open>user_isPasswordCorrect\<close> and \<open>hasPassword\<close> are.
\<close>

theorem admin_sets_email_of_other_account:
  assumes "uid = get_field (draft w) ''uid''" and "truthy uid"
      and "canManageUsers"
      and "uid \<noteq> req_uid (request w)"
      and "truthy (get_field (form w) ''email'')"
      and "e = trim (js_String (get_field (form w) ''email''))" and "e \<noteq> []"
      and "p_allowed (plugins_fire_saveEmail env (saveEmail_query uid (JStr e) False))"
      and "utils_isEmailValid env (JStr e)"
      and "e \<noteq> fst (user_getUserFields env uid)"
      and "user_email_available env (JStr e)"
      and "r = email_callback env canManageUsers hasPassword w"
  shows "fst r = Fulfilled
         \<and> trace (snd r)
             = trace w @
               [Call_isPasswordCorrect uid (get_field (form w) ''password'') (req_ip (request w)),
                Call_canEdit (req_uid (request w)) uid,
                Call_getUserFields uid [''email'', ''email:confirmed''],
                Fire_saveEmail (saveEmail_query uid (JStr e) False),
                Call_email_available (JStr e),
                Email_remove uid JUndefined,
                SetUserField uid ''email'' (JStr e),
                ConfirmByUid uid]
         \<and> draft (snd r) = (draft w)(''updateEmail'' := None)
         \<and> request (snd r) = request w"
  using assms by (simp add: email_defs get_field_def)

theorem admin_sets_email_of_other_account_witness:
  "truthy (JNum 7)
   \<and> JNum 7 \<noteq> req_uid (request (submit7 1 (lit '' new@example.com '') (lit ''wrong'')))
   \<and> \<not> user_isPasswordCorrect env0 (JNum 7) (JStr (lit ''wrong'')) (JStr (lit ''::1''))
   \<and> fst (email_callback env0 True True (submit7 1 (lit '' new@example.com '') (lit ''wrong''))) = Fulfilled
   \<and> trace (snd (email_callback env0 True True (submit7 1 (lit '' new@example.com '') (lit ''wrong''))))
       = [Call_isPasswordCorrect (JNum 7) (JStr (lit ''wrong'')) (JStr (lit ''::1'')),
          Call_canEdit (JNum 1) (JNum 7),
          Call_getUserFields (JNum 7) [''email'', ''email:confirmed''],
          Fire_saveEmail (saveEmail_query (JNum 7) (JStr (lit ''new@example.com'')) False),
          Call_email_available (JStr (lit ''new@example.com'')),
          Email_remove (JNum 7) JUndefined,
          SetUserField (JNum 7) ''email'' (JStr (lit ''new@example.com'')),
          ConfirmByUid (JNum 7)]"
proof -
  let ?w = "submit7 1 (lit '' new@example.com '') (lit ''wrong'')"
  have h1: "JNum 7 = get_field (draft ?w) ''uid''"
    by (simp add: submit7_sel get_field_def lit_def)
  have h2: "truthy (JNum 7)" by simp
  have h3: "True" by simp
  have h4: "JNum 7 \<noteq> req_uid (request ?w)"
    by (simp add: submit7_sel)
  have h5: "truthy (get_field (form ?w) ''email'')"
    by (simp add: submit7_sel get_field_def lit_def)
  have h6: "lit ''new@example.com'' = trim (js_String (get_field (form ?w) ''email''))"
    by (simp add: submit7_sel get_field_def trim_def is_ws_def lit_def)
  have h7: "lit ''new@example.com'' \<noteq> []" by (simp add: lit_def)
  have h8: "p_allowed (plugins_fire_saveEmail env0 (saveEmail_query (JNum 7) (JStr (lit ''new@example.com'')) False))"
    by (simp add: env0_sel saveEmail_query_def)
  have h9: "utils_isEmailValid env0 (JStr (lit ''new@example.com''))"
    by (simp add: env0_sel lit_def)
  have h10: "lit ''new@example.com'' \<noteq> fst (user_getUserFields env0 (JNum 7))"
    by (simp add: env0_sel lit_def)
  have h11: "user_email_available env0 (JStr (lit ''new@example.com''))"
    by (simp add: env0_sel lit_def)
  have pw: "\<not> user_isPasswordCorrect env0 (JNum 7) (JStr (lit ''wrong'')) (JStr (lit ''::1''))"
    by (simp add: env0_sel lit_def)
  from admin_sets_email_of_other_account [OF h1 h2 h3 h4 h5 h6 h7 h8 h9 h10 h11 refl, of True]
  have "fst (email_callback env0 True True ?w) = Fulfilled"
    and "trace (snd (email_callback env0 True True ?w))
       = [Call_isPasswordCorrect (JNum 7) (JStr (lit ''wrong'')) (JStr (lit ''::1'')),
          Call_canEdit (JNum 1) (JNum 7),
          Call_getUserFields (JNum 7) [''email'', ''email:confirmed''],
          Fire_saveEmail (saveEmail_query (JNum 7) (JStr (lit ''new@example.com'')) False),
          Call_email_available (JStr (lit ''new@example.com'')),
          Email_remove (JNum 7) JUndefined,
          SetUserField (JNum 7) ''email'' (JStr (lit ''new@example.com'')),
          ConfirmByUid (JNum 7)]"
    by (simp_all add: submit7_sel get_field_def)
  with h2 h4 pw show ?thesis
    by (intro conjI)
qed

section \<open>The delay after a failed password check\<close>

lemma extends_and_then:
  assumes "extends_by_branch t r" and "\<And>w. extends_by_branch (trace w) (k w)"
  shows "extends_by_branch t (and_then r k)"
proof (cases r)
  case (Pair out w)
  from assms(1) Pair obtain es where es: "trace w = t @ es" "list_all branch_event es"
    by (auto simp: extends_by_branch_def)
  show ?thesis
  proof (cases out)
    case Fulfilled
    from assms(2) [of w] obtain es' where es': "trace (snd (k w)) = trace w @ es'" "list_all branch_event es'"
      by (auto simp: extends_by_branch_def)
    have "trace (snd (k w)) = t @ (es @ es')" using es es' by simp
    moreover have "list_all branch_event (es @ es')" using es es' by simp
    ultimately have "extends_by_branch t (k w)" unfolding extends_by_branch_def by blast
    then show ?thesis using Pair Fulfilled by (simp add: and_then_def)
  next
    case (Threw e)
    then show ?thesis using Pair assms(1) by (simp add: and_then_def)
  next
    case (Next e)
    then show ?thesis using Pair assms(1) by (simp add: and_then_def)
  qed
qed

lemma extends_check_email_allowed:
  "extends_by_branch (trace w) (check_email_allowed env email res w)"
  by (simp add: check_email_allowed_def extends_by_branch_def)

lemma extends_check_email_change:
  "extends_by_branch (trace w) (check_email_change env uid email current confirmed w)"
  by (simp add: check_email_change_def extends_by_branch_def emit_def branch_event_def)

lemma extends_apply_email_change:
  "extends_by_branch (trace w)
     (apply_email_change env canManageUsers hasPassword isPasswordCorrect canEdit uid email w)"
  by (simp add: apply_email_change_def extends_by_branch_def emit_def branch_event_def)

lemma extends_clear_email:
  "extends_by_branch (trace w)
     (clear_email env canManageUsers hasPassword isPasswordCorrect isSelf uid current w)"
  by (simp add: clear_email_def extends_by_branch_def emit_def branch_event_def)

lemma extends_branching:
  "extends_by_branch (trace w2)
     (if email_submitted email then
        and_then (check_email_allowed env email res w2) (\<lambda>w3.
        and_then (check_email_change env uid email current confirmed w3) (\<lambda>w4.
        apply_email_change env canManageUsers hasPassword isPasswordCorrect canEdit uid email w4))
      else clear_email env canManageUsers hasPassword isPasswordCorrect isSelf uid current w2)"
  by (simp add: extends_and_then extends_check_email_allowed extends_check_email_change
        extends_apply_email_change extends_clear_email)

lemma existing_throttled:
  assumes "\<not> canManageUsers"
      and "\<not> user_isPasswordCorrect env (get_field (draft w) ''uid'') (get_field (form w) ''password'')
               (req_ip (request w))"
  shows "extends_by_branch (trace w @ joined_lookups w @ [Sleep 2000])
           (email_callback_existing env canManageUsers hasPassword w)"
proof -
  let ?w2 = "emit [Sleep 2000] (emit (joined_lookups w) w)"
  have "extends_by_branch (trace ?w2) (email_callback_existing env canManageUsers hasPassword w)"
    using assms
    by (simp add: email_callback_existing_def Let_def extends_branching split del: if_split cong: if_cong)
  moreover have "trace ?w2 = trace w @ joined_lookups w @ [Sleep 2000]"
    by (simp add: emit_def)
  ultimately show ?thesis by simp
qed

lemma trim_email_frame:
  "draft (trim_email w) = draft w"
  "request (trim_email w) = request w"
  "trace (trim_email w) = trace w"
  "get_field (form (trim_email w)) ''password'' = get_field (form w) ''password''"
  by (simp_all add: trim_email_def get_field_def)

lemma length_joined_lookups: "length (joined_lookups w) = 4"
  by (simp add: joined_lookups_def Let_def)

lemma all_joined_lookups: "list_all is_joined_lookup (joined_lookups w)"
  by (simp add: joined_lookups_def Let_def)

text \<open>
  Claim C8. The trace lists the awaited calls of one execution in the order in which the
  callback makes them; the delay is awaited (line 77), so it is one of them. On the draft of
  an existing account, when the actor cannot administer accounts and the password check
  failed, the calls of the callback are: the four joined lookups, then the delay of 2000
  milliseconds, then the calls of the branching on the submitted email (\<open>rest\<close>), none of
  which is a delay or one of the joined lookups. So in each such execution the delay happens,
  exactly once, after the lookups and before any call of a branch, also when the callback
  ends by throwing.
\<close>

theorem throttle_before_branching:
  assumes "uid = get_field (draft w) ''uid''" and "truthy uid"
      and "\<not> canManageUsers"
      and "\<not> user_isPasswordCorrect env uid (get_field (form w) ''password'') (req_ip (request w))"
      and "r = email_callback env canManageUsers hasPassword w"
      and "rest = drop (length (trace w) + 5) (trace (snd r))"
  shows "trace (snd r) = trace w @ joined_lookups (trim_email w) @ Sleep 2000 # rest
         \<and> length (joined_lookups (trim_email w)) = 4
         \<and> list_all is_joined_lookup (joined_lookups (trim_email w))
         \<and> list_all branch_event rest
         \<and> filter is_delay (drop (length (trace w)) (trace (snd r))) = [Sleep 2000]"
proof -
  let ?w = "trim_email w"
  have "extends_by_branch (trace ?w @ joined_lookups ?w @ [Sleep 2000])
          (email_callback_existing env canManageUsers hasPassword ?w)"
    using assms(1,3,4) by (intro existing_throttled) (simp_all add: trim_email_frame)
  then have "extends_by_branch (trace w @ joined_lookups ?w @ [Sleep 2000])
          (and_then (email_callback_existing env canManageUsers hasPassword ?w)
             (\<lambda>w'. (Fulfilled, w'\<lparr>draft := (draft w')(''updateEmail'' := None)\<rparr>)))"
    by (intro extends_and_then) (simp_all add: trim_email_frame extends_by_branch_def)
  then have "extends_by_branch (trace w @ joined_lookups ?w @ [Sleep 2000]) r"
    using assms(1,2,5) by (simp add: email_callback_def Let_def trim_email_frame)
  then obtain es where es: "trace (snd r) = (trace w @ joined_lookups ?w @ [Sleep 2000]) @ es"
      "list_all branch_event es"
    unfolding extends_by_branch_def by blast
  have rest: "rest = es"
    using assms(6) es(1) by (simp add: length_joined_lookups)
  have no_delay: "filter is_delay (joined_lookups ?w) = []" "filter is_delay es = []"
    using es(2) by (simp_all add: joined_lookups_def Let_def branch_event_def list_all_iff filter_empty_conv)
  have "filter is_delay (drop (length (trace w)) (trace (snd r))) = [Sleep 2000]"
    using es(1) no_delay by simp
  then show ?thesis
    using es rest all_joined_lookups [of ?w] length_joined_lookups [of ?w] by simp
qed

theorem throttle_before_branching_witness:
  "truthy (JNum 7)
   \<and> \<not> user_isPasswordCorrect env0 (JNum 7)
          (get_field (form (submit7 7 (lit ''new@example.com'') (lit ''wrong''))) ''password'')
          (req_ip (request (submit7 7 (lit ''new@example.com'') (lit ''wrong''))))
   \<and> trace (snd (email_callback env0 False False (submit7 7 (lit ''new@example.com'') (lit ''wrong''))))
       = [Call_isPasswordCorrect (JNum 7) (JStr (lit ''wrong'')) (JStr (lit ''::1'')),
          Call_canEdit (JNum 7) (JNum 7),
          Call_getUserFields (JNum 7) [''email'', ''email:confirmed''],
          Fire_saveEmail (saveEmail_query (JNum 7) (JStr (lit ''new@example.com'')) False),
          Sleep 2000,
          SendValidationEmail (JNum 7) (JStr (lit ''new@example.com'')) True]"
proof -
  let ?w = "submit7 7 (lit ''new@example.com'') (lit ''wrong'')"
  let ?r = "email_callback env0 False False ?w"
  have h1: "JNum 7 = get_field (draft ?w) ''uid''"
    by (simp add: submit7_sel get_field_def lit_def)
  have h2: "truthy (JNum 7)" by simp
  have h3: "\<not> False" by simp
  have h4: "\<not> user_isPasswordCorrect env0 (JNum 7) (get_field (form ?w) ''password'') (req_ip (request ?w))"
    by (simp add: env0_sel submit7_sel get_field_def lit_def)
  have rest: "drop (length (trace ?w) + 5) (trace (snd ?r))
                = [SendValidationEmail (JNum 7) (JStr (lit ''new@example.com'')) True]"
    by (simp add: email_defs env0_sel submit7_sel saveEmail_query_def get_field_def trim_def is_ws_def lit_def)
  have lookups: "joined_lookups (trim_email ?w)
                = [Call_isPasswordCorrect (JNum 7) (JStr (lit ''wrong'')) (JStr (lit ''::1'')),
                   Call_canEdit (JNum 7) (JNum 7),
                   Call_getUserFields (JNum 7) [''email'', ''email:confirmed''],
                   Fire_saveEmail (saveEmail_query (JNum 7) (JStr (lit ''new@example.com'')) False)]"
    by (simp add: joined_lookups_def Let_def trim_email_def submit7_sel get_field_def trim_def is_ws_def lit_def)
  from throttle_before_branching [OF h1 h2 h3 h4 refl refl, of False]
  have "trace (snd ?r) = trace ?w @ joined_lookups (trim_email ?w)
          @ Sleep 2000 # drop (length (trace ?w) + 5) (trace (snd ?r))"
    by blast
  then have "trace (snd ?r)
       = [Call_isPasswordCorrect (JNum 7) (JStr (lit ''wrong'')) (JStr (lit ''::1'')),
          Call_canEdit (JNum 7) (JNum 7),
          Call_getUserFields (JNum 7) [''email'', ''email:confirmed''],
          Fire_saveEmail (saveEmail_query (JNum 7) (JStr (lit ''new@example.com'')) False),
          Sleep 2000,
          SendValidationEmail (JNum 7) (JStr (lit ''new@example.com'')) True]"
    unfolding rest lookups by (simp add: submit7_sel)
  with h2 h4 show ?thesis
    by (intro conjI)
qed

section \<open>Re-submitting the current, confirmed email\<close>

text \<open>
  Claim C3 at a concrete input: account 7 submits its own current, confirmed email with the
  right password, and a plugin vetoes the change. The callback throws the error of the bus
  filter (line 82), not the email-nochange error: the veto and the format check come before
  the comparison with the current email.
\<close>

theorem email_nochange_counterexample:
  "truthy (get_field (draft (submit7 7 (lit ''old@example.com'') (lit ''secret''))) ''uid'')
   \<and> get_field (form (submit7 7 (lit ''old@example.com'') (lit ''secret''))) ''email''
       = JStr (fst (user_getUserFields env_veto (JNum 7)))
   \<and> truthy (snd (user_getUserFields env_veto (JNum 7)))
   \<and> fst (email_callback env_veto False True (submit7 7 (lit ''old@example.com'') (lit ''secret'')))
       = Threw (Error (lit ''[[error:invalid-email]]''))
   \<and> fst (email_callback env_veto False True (submit7 7 (lit ''old@example.com'') (lit ''secret'')))
       \<noteq> Threw (Error (lit ''[[error:email-nochange]]''))"
  by (simp add: email_defs env_veto_sel submit7_sel saveEmail_query_def get_field_def trim_def is_ws_def lit_def)

text \<open>
  Claim C3, amended. For the draft of an existing account, when the submitted email, trimmed
  as \<^verbatim>\<open>String.prototype.trim\<close> trims it, is not empty, passes the bus filter and the
  format check, equals the current email of the account, and that email is confirmed, the
  callback throws the email-nochange error. The draft and the request are as before, and no
  call that changes the account store or sends mail is made. The sample inputs submit the
  current email behind a no-break space, as the owner, as another account without edit
  rights, and as an administrator.
\<close>

theorem email_nochange_when_allowed:
  assumes "uid = get_field (draft w) ''uid''" and "truthy uid"
      and "truthy (get_field (form w) ''email'')"
      and "e = trim (js_String (get_field (form w) ''email''))" and "e \<noteq> []"
      and "p_allowed (plugins_fire_saveEmail env (saveEmail_query uid (JStr e) False))"
      and "utils_isEmailValid env (JStr e)"
      and "e = fst (user_getUserFields env uid)"
      and "truthy (snd (user_getUserFields env uid))"
      and "r = email_callback env canManageUsers hasPassword w"
  shows "fst r = Threw (Error (lit ''[[error:email-nochange]]''))
         \<and> draft (snd r) = draft w
         \<and> request (snd r) = request w
         \<and> filter is_mutation (trace (snd r)) = filter is_mutation (trace w)"
  using assms by (simp add: email_defs get_field_def)

theorem email_nochange_when_allowed_witness:
  "truthy (JNum 7)
   \<and> lit ''old@example.com'' = trim nbsp_old
   \<and> lit ''old@example.com'' = fst (user_getUserFields env0 (JNum 7))
   \<and> truthy (snd (user_getUserFields env0 (JNum 7)))
   \<and> fst (email_callback env0 False True (submit7 7 nbsp_old (lit ''secret'')))
       = Threw (Error (lit ''[[error:email-nochange]]''))
   \<and> draft (snd (email_callback env0 False True (submit7 7 nbsp_old (lit ''secret''))))
       = draft (submit7 7 nbsp_old (lit ''secret''))
   \<and> fst (email_callback env0 False True (submit7 3 nbsp_old (lit ''secret'')))
       = Threw (Error (lit ''[[error:email-nochange]]''))
   \<and> fst (email_callback env0 True True (submit7 1 nbsp_old (lit ''wrong'')))
       = Threw (Error (lit ''[[error:email-nochange]]''))"
proof -
  have h1: "JNum 7 = get_field (draft (submit7 a nbsp_old p)) ''uid''" for a p
    by (simp add: submit7_sel get_field_def)
  have h2: "truthy (JNum 7)" by simp
  have h3: "truthy (get_field (form (submit7 a nbsp_old p)) ''email'')" for a p
    by (simp add: submit7_sel get_field_def nbsp_old_def)
  have h4: "lit ''old@example.com'' = trim (js_String (get_field (form (submit7 a nbsp_old p)) ''email''))"
    for a p
    by (simp add: submit7_sel get_field_def trim_nbsp_old)
  have h5: "lit ''old@example.com'' \<noteq> []" by (simp add: lit_def)
  have h6: "p_allowed (plugins_fire_saveEmail env0 (saveEmail_query (JNum 7) (JStr (lit ''old@example.com'')) False))"
    by (simp add: env0_sel saveEmail_query_def)
  have h7: "utils_isEmailValid env0 (JStr (lit ''old@example.com''))"
    by (simp add: env0_sel lit_def)
  have h8: "lit ''old@example.com'' = fst (user_getUserFields env0 (JNum 7))"
    by (simp add: env0_sel)
  have h9: "truthy (snd (user_getUserFields env0 (JNum 7)))"
    by (simp add: env0_sel)
  have nochange: "fst (email_callback env0 cm True (submit7 a nbsp_old p))
                    = Threw (Error (lit ''[[error:email-nochange]]''))
                  \<and> draft (snd (email_callback env0 cm True (submit7 a nbsp_old p)))
                    = draft (submit7 a nbsp_old p)" for cm a p
    using email_nochange_when_allowed
            [OF h1 [of a p] h2 h3 [of a p] h4 [of a p] h5 h6 h7 h8 h9 refl,
             where canManageUsers = cm and hasPassword = True]
    by blast
  from nochange [of False 7 "lit ''secret''"] nochange [of False 3 "lit ''secret''"]
    nochange [of True 1 "lit ''wrong''"] h2 h8 h9 trim_nbsp_old [symmetric]
  show ?thesis
    by blast
qed

section \<open>Editing the email of an account without edit rights\<close>

text \<open>
  Claim C1 at three concrete inputs. The actor cannot administer accounts and the draft is of
  account 7, not the actor's. Account 2, a moderator with edit rights on account 7, submits a
  new email and the password of account 7: the callback fulfils. Account 3, without edit
  rights, submits a string that is not an email: the invalid-email error. Account 3 submits
  the current, confirmed email of account 7: the email-nochange error. None of the three ends
  with the no-privileges error.
\<close>

theorem no_privileges_counterexample:
  "\<not> privileges_admin_can env0 ''admin:users'' (JNum 2)
   \<and> \<not> privileges_admin_can env0 ''admin:users'' (JNum 3)
   \<and> fst (email_callback env0 False True (submit7 2 (lit ''new@example.com'') (lit ''secret''))) = Fulfilled
   \<and> fst (email_callback env0 False True (submit7 3 (lit ''not-an-email'') (lit ''secret'')))
       = Threw (Error (lit ''[[error:invalid-email]]''))
   \<and> fst (email_callback env0 False True (submit7 3 (lit ''old@example.com'') (lit ''secret'')))
       = Threw (Error (lit ''[[error:email-nochange]]''))"
  by (simp add: email_defs env0_sel submit7_sel saveEmail_query_def get_field_def trim_def is_ws_def lit_def)

text \<open>
  Claim C1, amended. For the draft of an existing account that is not the actor's, when the
  actor cannot administer accounts and the privilege service grants the actor no edit right
  on the account, and the submitted email, trimmed, is not empty, passes the bus filter and
  the format check, and is not rejected by the comparison with the current email (it
  differs from it, or the current email is unconfirmed and a confirmation may be sent
  again), the callback throws the no-privileges error. Nothing is assumed about the
  password: the theorem holds whatever \<open>user_isPasswordCorrect\<close> and \<open>hasPassword\<close> are.
\<close>

theorem no_privileges_without_edit_right:
  assumes "uid = get_field (draft w) ''uid''" and "truthy uid"
      and "\<not> canManageUsers"
      and "uid \<noteq> req_uid (request w)"
      and "\<not> privileges_users_canEdit env (req_uid (request w)) uid"
      and "truthy (get_field (form w) ''email'')"
      and "e = trim (js_String (get_field (form w) ''email''))" and "e \<noteq> []"
      and "p_allowed (plugins_fire_saveEmail env (saveEmail_query uid (JStr e) False))"
      and "utils_isEmailValid env (JStr e)"
      and "e = fst (user_getUserFields env uid) \<longrightarrow>
             \<not> truthy (snd (user_getUserFields env uid)) \<and> user_email_canSendValidation env uid e"
  shows "fst (email_callback env canManageUsers hasPassword w) = Threw (Error (lit ''[[error:no-privileges]]''))"
proof (cases "e = fst (user_getUserFields env uid)")
  case True
  with assms(11) have "\<not> truthy (snd (user_getUserFields env uid))"
    and "user_email_canSendValidation env uid (fst (user_getUserFields env uid))"
    by simp_all
  with True assms(1-10) show ?thesis
    by (simp add: email_defs get_field_def)
next
  case False
  with assms(1-10) show ?thesis
    by (simp add: email_defs get_field_def)
qed

theorem no_privileges_without_edit_right_witness:
  "truthy (JNum 7)
   \<and> JNum 7 \<noteq> req_uid (request (submit7 3 (lit ''new@example.com'') (lit ''secret'')))
   \<and> \<not> privileges_users_canEdit env0 (req_uid (request (submit7 3 (lit ''new@example.com'') (lit ''secret'')))) (JNum 7)
   \<and> user_isPasswordCorrect env0 (JNum 7) (JStr (lit ''secret'')) (JStr (lit ''::1''))
   \<and> fst (email_callback env0 False True (submit7 3 (lit ''new@example.com'') (lit ''secret'')))
       = Threw (Error (lit ''[[error:no-privileges]]''))"
proof -
  let ?w = "submit7 3 (lit ''new@example.com'') (lit ''secret'')"
  have h1: "JNum 7 = get_field (draft ?w) ''uid''"
    by (simp add: submit7_sel get_field_def lit_def)
  have h2: "truthy (JNum 7)" by simp
  have h3: "\<not> False" by simp
  have h4: "JNum 7 \<noteq> req_uid (request ?w)"
    by (simp add: submit7_sel)
  have h5: "\<not> privileges_users_canEdit env0 (req_uid (request ?w)) (JNum 7)"
    by (simp add: env0_sel submit7_sel lit_def)
  have h6: "truthy (get_field (form ?w) ''email'')"
    by (simp add: submit7_sel get_field_def lit_def)
  have h7: "lit ''new@example.com'' = trim (js_String (get_field (form ?w) ''email''))"
    by (simp add: submit7_sel get_field_def trim_def is_ws_def lit_def)
  have h8: "lit ''new@example.com'' \<noteq> []" by (simp add: lit_def)
  have h9: "p_allowed (plugins_fire_saveEmail env0 (saveEmail_query (JNum 7) (JStr (lit ''new@example.com'')) False))"
    by (simp add: env0_sel saveEmail_query_def)
  have h10: "utils_isEmailValid env0 (JStr (lit ''new@example.com''))"
    by (simp add: env0_sel lit_def)
  have h11: "lit ''new@example.com'' = fst (user_getUserFields env0 (JNum 7)) \<longrightarrow>
             \<not> truthy (snd (user_getUserFields env0 (JNum 7)))
             \<and> user_email_canSendValidation env0 (JNum 7) (lit ''new@example.com'')"
    by (simp add: env0_sel lit_def)
  have pw: "user_isPasswordCorrect env0 (JNum 7) (JStr (lit ''secret'')) (JStr (lit ''::1''))"
    by (simp add: env0_sel lit_def)
  from no_privileges_without_edit_right [OF h1 h2 h3 h4 h5 h6 h7 h8 h9 h10 h11, of True] h2 h4 h5 pw
  show ?thesis
    by blast
qed

section \<open>The password-challenge flag\<close>

text \<open>
  Claim C2 at a concrete input: account 3, which cannot administer accounts, opens the email
  form for the draft of account 7, which has a password. The entry the step contributes has
  \<open>issuePasswordChallenge\<close> true, although the actor is not editing their own account, so
  that the flag in the words of the specification is false.
\<close>

theorem password_challenge_counterexample:
  "userData (step_arg 3 (Some draft7)) = Some draft7
   \<and> truthy (get_field draft7 ''updateEmail'')
   \<and> \<not> privileges_admin_can env0 ''admin:users'' (req_uid (req (step_arg 3 (Some draft7))))
   \<and> get_field draft7 ''uid'' \<noteq> req_uid (req (step_arg 3 (Some draft7)))
   \<and> map (render_value ''issuePasswordChallenge'')
        (contributed (step_arg 3 (Some draft7)) (Interstitials_email env0 (step_arg 3 (Some draft7))))
      = [JBool True]
   \<and> spec_issuePasswordChallenge (user_hasPassword env0 (get_field draft7 ''uid''))
        (privileges_admin_can env0 ''admin:users'' (req_uid (req (step_arg 3 (Some draft7)))))
        (get_field draft7 ''uid'' = req_uid (req (step_arg 3 (Some draft7)))) = False"
  by (simp add: Interstitials_email_def contributed_def render_value_def issuePasswordChallenge_def
        spec_issuePasswordChallenge_def Let_def env0_sel step_arg_sel draft7_def get_field_def)

text \<open>
  Claim C2, amended. For every draft with \<open>updateEmail\<close> set, the step contributes one
  entry, and its password-challenge flag is true exactly when the target account has a
  password and either the actor is an administrator and the draft's \<open>uid\<close> is the actor's
  (\<^verbatim>\<open>userData.uid === data.req.uid\<close>), or the actor is not an administrator and the draft
  has a truthy \<open>uid\<close>, that is, it is the draft of an existing account, the actor's own or
  not. In every other case the flag is false.
\<close>

theorem password_challenge_flag:
  assumes "userData d = Some ud" and "truthy (get_field ud ''updateEmail'')"
      and "uid = get_field ud ''uid''"
      and "admin = privileges_admin_can env ''admin:users'' (req_uid (req d))"
  shows "map (render_value ''issuePasswordChallenge'') (contributed d (Interstitials_email env d))
           = [JBool (user_hasPassword env uid
                     \<and> ((admin \<and> uid = req_uid (req d)) \<or> (\<not> admin \<and> truthy uid)))]"
  using assms
  by (simp add: Interstitials_email_def contributed_def render_value_def issuePasswordChallenge_def
        Let_def get_field_def)

theorem password_challenge_flag_witness:
  "userData (step_arg 1 (Some draft7)) = Some draft7
   \<and> truthy (get_field draft7 ''updateEmail'')
   \<and> privileges_admin_can env0 ''admin:users'' (req_uid (req (step_arg 1 (Some draft7))))
   \<and> user_hasPassword env0 (JNum 7)
   \<and> map (render_value ''issuePasswordChallenge'')
        (contributed (step_arg 1 (Some draft7)) (Interstitials_email env0 (step_arg 1 (Some draft7))))
      = [JBool False]"
proof -
  let ?d = "step_arg 1 (Some draft7)"
  have h1: "userData ?d = Some draft7"
    by (simp add: step_arg_sel)
  have h2: "truthy (get_field draft7 ''updateEmail'')"
    by (simp add: draft7_def get_field_def)
  have h3: "JNum 7 = get_field draft7 ''uid''"
    by (simp add: draft7_def get_field_def)
  have h4: "True = privileges_admin_can env0 ''admin:users'' (req_uid (req ?d))"
    by (simp add: env0_sel step_arg_sel)
  have pw: "user_hasPassword env0 (JNum 7)"
    by (simp add: env0_sel lit_def)
  have "map (render_value ''issuePasswordChallenge'') (contributed ?d (Interstitials_email env0 ?d))
          = [JBool False]"
    unfolding password_challenge_flag [OF h1 h2 h3 h4]
    by (simp add: step_arg_sel)
  with h1 h2 h4 pw show ?thesis
    by simp
qed

section \<open>The consent callback\<close>

text \<open>
  Claim C5 at a concrete input: the draft already carries a true consent flag and the
  email-communications toggle is not affirmative. The callback reads the flag of the draft
  (line 178), not the toggles, and continues without error.
\<close>

theorem consent_callback_counterexample:
  "get_field (form (answer [''gdpr_consent'' \<mapsto> JBool True] (toggles ''on'' ''off'' ''on''))) ''gdpr_agree_email''
     \<noteq> JStr (lit ''on'')
   \<and> fst (gdpr_callback (answer [''gdpr_consent'' \<mapsto> JBool True] (toggles ''on'' ''off'' ''on''))) = Next None"
  by (simp add: gdpr_callback_def answer_sel toggles_def get_field_def lit_def)

text \<open>
  Claim C5, amended. For every draft that does not already carry a truthy consent flag, and
  every submitted form: when both the data-sharing toggle and the email-communications
  toggle are \<open>on\<close>, the callback sets the consent flag of the draft to true and calls
  \<^verbatim>\<open>next\<close> without error; for every other combination of the toggles it leaves the draft
  as it is and calls \<^verbatim>\<open>next\<close> with the consent-denied error. It never throws.
\<close>

theorem consent_callback:
  assumes "\<not> truthy (get_field (draft w) ''gdpr_consent'')"
  shows "gdpr_callback w =
           (if get_field (form w) ''gdpr_agree_data'' = JStr (lit ''on'')
               \<and> get_field (form w) ''gdpr_agree_email'' = JStr (lit ''on'')
            then (Next None, w\<lparr>draft := (draft w)(''gdpr_consent'' \<mapsto> JBool True)\<rparr>)
            else (Next (Some (Error (lit ''[[register:gdpr_consent_denied]]''))), w))"
  using assms by (simp add: gdpr_callback_def get_field_def)

theorem consent_callback_witness:
  "\<not> truthy (get_field (draft (answer draft7_done (toggles ''on'' ''on'' ''on''))) ''gdpr_consent'')
   \<and> \<not> truthy (get_field (draft (answer draft7_done (toggles ''on'' ''off'' ''on''))) ''gdpr_consent'')
   \<and> fst (gdpr_callback (answer draft7_done (toggles ''on'' ''on'' ''on''))) = Next None
   \<and> get_field (draft (snd (gdpr_callback (answer draft7_done (toggles ''on'' ''on'' ''on''))))) ''gdpr_consent''
       = JBool True
   \<and> gdpr_callback (answer draft7_done (toggles ''on'' ''off'' ''on''))
       = (Next (Some (Error (lit ''[[register:gdpr_consent_denied]]''))), answer draft7_done (toggles ''on'' ''off'' ''on''))"
proof -
  let ?yes = "answer draft7_done (toggles ''on'' ''on'' ''on'')"
  let ?no = "answer draft7_done (toggles ''on'' ''off'' ''on'')"
  have h1: "\<not> truthy (get_field (draft ?yes) ''gdpr_consent'')"
    by (simp add: answer_sel draft7_done_def get_field_def)
  have h2: "\<not> truthy (get_field (draft ?no) ''gdpr_consent'')"
    by (simp add: answer_sel draft7_done_def get_field_def)
  have c1: "fst (gdpr_callback ?yes) = Next None"
    and c2: "get_field (draft (snd (gdpr_callback ?yes))) ''gdpr_consent'' = JBool True"
    unfolding consent_callback [OF h1]
    by (simp_all add: answer_sel toggles_def get_field_def lit_def)
  have c3: "gdpr_callback ?no = (Next (Some (Error (lit ''[[register:gdpr_consent_denied]]''))), ?no)"
    unfolding consent_callback [OF h2]
    by (simp add: answer_sel toggles_def get_field_def lit_def)
  from h1 h2 c1 c2 c3 show ?thesis
    by (intro conjI)
qed

section \<open>The terms-of-use entry\<close>

text \<open>
  Claim C7 at a concrete input: the terms-of-use step applies to the draft of account 7 and
  contributes its entry; by the time the callback of that entry runs, the draft carries a
  true acceptance flag, and the toggle \<open>agree-terms\<close> of the submission is not \<open>on\<close>. The
  callback reads the flag of the draft (line 216), not the toggle, and calls \<^verbatim>\<open>next\<close>
  without the terms-of-use error.
\<close>

theorem terms_step_counterexample:
  "contributed (step_arg 7 (Some draft7_done)) (Interstitials_tou env0 (step_arg 7 (Some draft7_done)))
     = [tou_entry0]
   \<and> get_field (form (answer draft7_accepted (toggles ''on'' ''on'' ''off''))) ''agree-terms''
       \<noteq> JStr (lit ''on'')
   \<and> fst (run_callback env0 (callback tou_entry0) (answer draft7_accepted (toggles ''on'' ''on'' ''off'')))
       = Next None"
  by (simp add: Interstitials_tou_def contributed_def Let_def js_or_def parseInt10_def
        is_ws_def is_digit_def env0_sel step_arg_sel draft7_done_def draft7_accepted_def tou_entry0_def
        run_callback_def tou_callback_def answer_sel toggles_def get_field_def lit_def)

text \<open>
  Claim C7, amended. Whenever the terms-of-use step applies, that is, it contributes an
  entry, the rendered terms text of the entry is the configured terms-of-use text as the
  content filter \<^verbatim>\<open>filter:parse.post\<close> returns it, and the draft the step was applied to
  carries no truthy acceptance flag. On every draft that does not already carry a truthy
  acceptance flag, the callback of the entry sets the flag to true and calls \<^verbatim>\<open>next\<close>
  without error when the toggle \<open>agree-terms\<close> of the submission is \<open>on\<close>; otherwise it
  leaves the draft as it is and calls \<^verbatim>\<open>next\<close> with the terms-of-use error. It never
  throws.
\<close>

theorem terms_step:
  assumes "contributed d (Interstitials_tou env d) = [i]"
      and "\<not> truthy (get_field (draft w) ''acceptTos'')"
  shows "template i = ''partials/acceptTos''
         \<and> render_value ''termsOfUse'' i
             = plugins_fire_parse_post env (get_field (meta_config env) ''termsOfUse'')
         \<and> (case userData d of None \<Rightarrow> False | Some ud \<Rightarrow> \<not> truthy (get_field ud ''acceptTos''))
         \<and> run_callback env (callback i) w =
             (if get_field (form w) ''agree-terms'' = JStr (lit ''on'')
              then (Next None, w\<lparr>draft := (draft w)(''acceptTos'' \<mapsto> JBool True)\<rparr>)
              else (Next (Some (Error (lit ''[[register:terms_of_use_error]]''))), w))"
proof -
  let ?entry = "\<lparr>template = ''partials/acceptTos'',
                 idata = [''termsOfUse'' \<mapsto> plugins_fire_parse_post env (get_field (meta_config env) ''termsOfUse'')],
                 callback = TouCallback\<rparr>"
  obtain ud where ud: "userData d = Some ud"
    using assms(1) by (cases "userData d") (simp_all add: Interstitials_tou_def contributed_def)
  have applies: "truthy (get_field (meta_config env) ''termsOfUse'') \<and> \<not> truthy (get_field ud ''acceptTos'')"
    using assms(1) ud by (auto simp add: Interstitials_tou_def contributed_def Let_def split: if_splits)
  then have "contributed d (Interstitials_tou env d) = [] \<or> contributed d (Interstitials_tou env d) = [?entry]"
    using ud by (simp add: Interstitials_tou_def contributed_def Let_def js_or_def)
  with assms(1) have i: "i = ?entry" by simp
  have "tou_callback w =
             (if get_field (form w) ''agree-terms'' = JStr (lit ''on'')
              then (Next None, w\<lparr>draft := (draft w)(''acceptTos'' \<mapsto> JBool True)\<rparr>)
              else (Next (Some (Error (lit ''[[register:terms_of_use_error]]''))), w))"
    using assms(2) by (simp add: tou_callback_def get_field_def)
  then show ?thesis
    unfolding i using applies ud by (simp add: run_callback_def render_value_def get_field_def)
qed

theorem terms_step_witness:
  "contributed (step_arg 7 (Some draft7_done)) (Interstitials_tou env0 (step_arg 7 (Some draft7_done)))
     = [tou_entry0]
   \<and> \<not> truthy (get_field (draft (answer draft7_done (toggles ''on'' ''on'' ''on''))) ''acceptTos'')
   \<and> \<not> truthy (get_field (draft (answer draft7_done (toggles ''on'' ''on'' ''off''))) ''acceptTos'')
   \<and> render_value ''termsOfUse'' tou_entry0 = JStr (lit ''<p>Be kind.</p>'')
   \<and> fst (run_callback env0 (callback tou_entry0) (answer draft7_done (toggles ''on'' ''on'' ''on''))) = Next None
   \<and> run_callback env0 (callback tou_entry0) (answer draft7_done (toggles ''on'' ''on'' ''off''))
       = (Next (Some (Error (lit ''[[register:terms_of_use_error]]''))),
          answer draft7_done (toggles ''on'' ''on'' ''off''))"
proof -
  let ?d = "step_arg 7 (Some draft7_done)"
  let ?yes = "answer draft7_done (toggles ''on'' ''on'' ''on'')"
  let ?no = "answer draft7_done (toggles ''on'' ''on'' ''off'')"
  have h1: "contributed ?d (Interstitials_tou env0 ?d) = [tou_entry0]"
    by (simp add: Interstitials_tou_def contributed_def Let_def js_or_def parseInt10_def
          is_ws_def is_digit_def env0_sel step_arg_sel draft7_done_def tou_entry0_def get_field_def lit_def)
  have h2: "\<not> truthy (get_field (draft ?yes) ''acceptTos'')"
    by (simp add: answer_sel draft7_done_def get_field_def)
  have h3: "\<not> truthy (get_field (draft ?no) ''acceptTos'')"
    by (simp add: answer_sel draft7_done_def get_field_def)
  from terms_step [OF h1 h2]
  have c0: "render_value ''termsOfUse'' tou_entry0 = JStr (lit ''<p>Be kind.</p>'')"
    by (simp add: env0_sel get_field_def lit_def)
  from terms_step [OF h1 h2]
  have c1: "fst (run_callback env0 (callback tou_entry0) ?yes) = Next None"
    by (simp add: answer_sel toggles_def get_field_def lit_def)
  from terms_step [OF h1 h3]
  have c2: "run_callback env0 (callback tou_entry0) ?no
              = (Next (Some (Error (lit ''[[register:terms_of_use_error]]''))), ?no)"
    by (simp add: answer_sel toggles_def get_field_def lit_def)
  from h1 h2 h3 c0 c1 c2 show ?thesis
    by (intro conjI)
qed

end
